theory Spec2Isabelle
  imports Complex_Main
begin

section \<open>The single-level paid and reported loss model\<close>

text \<open>
  The repository is one function, \<^verbatim>\<open>single_level_paid_rpt_loss_model\<close>: inside a
  model-building scope it declares five prior random variables, three deterministic
  variables and two Gamma likelihood terms, and returns the model. The embedding
  follows the function statement by statement. A declaration of the probabilistic
  programming library is a constructor holding the arguments the function passes to
  it. The library itself is not part of the repository: what it does with a call is a
  parameter of the embedding, so that nothing below supposes that the library accepts
  or refuses a declaration. In the same way the arithmetic in which the library
  evaluates the expressions is a parameter, with exact and binary64 arithmetic as two
  instances.
\<close>

subsection \<open>Python values, arrays and errors\<close>

text \<open>Python values that the function passes as keyword arguments.\<close>

datatype pyval = PInt int | PStr string | PTuple "pyval list"

text \<open>
  An array as NumPy holds it: its shape and its items in row-major order. A sequence
  of \<open>n\<close> labels has shape \<open>[n]\<close>, an \<open>r\<close> by \<open>c\<close> matrix has shape \<open>[r, c]\<close>.
\<close>

datatype 'a ndarray = NdArray (shape: "nat list") (items: "'a list")

text \<open>The attribute \<^verbatim>\<open>.shape\<close> of an array: a tuple of integers.\<close>

definition shape_attr :: "'a ndarray \<Rightarrow> pyval" where
  "shape_attr a = PTuple (map (\<lambda>n. PInt (int n)) (shape a))"

text \<open>
  A sequence of labels is a Python list (or tuple), which has no attribute
  \<^verbatim>\<open>.shape\<close>, or an array.
\<close>

datatype 'l labels = PyList "'l list" | Array "'l ndarray"

text \<open>
  \<open>KeyError\<close> is what indexing a dictionary with a missing key raises,
  \<open>AttributeError\<close> what reading a missing attribute raises, and \<open>ShapeError\<close> what
  elementwise arithmetic raises on two arrays whose shapes do not broadcast.
  \<open>LibraryError\<close> stands for an exception that the library raises when it receives a
  call.
\<close>

datatype error =
    KeyError string
  | AttributeError string
  | ShapeError "nat list" "nat list"
  | LibraryError string

text \<open>A result \<open>r\<close> is a returned object that satisfies \<open>P\<close>.\<close>

definition returns :: "error + 'a \<Rightarrow> ('a \<Rightarrow> bool) \<Rightarrow> bool" where
  "returns r P = (case r of Inl e \<Rightarrow> False | Inr x \<Rightarrow> P x)"

text \<open>A call raises when its result is an error.\<close>

definition raises :: "error + 'a \<Rightarrow> bool" where
  "raises r = (case r of Inl e \<Rightarrow> True | Inr x \<Rightarrow> False)"

text \<open>A dictionary with string keys, and \<^verbatim>\<open>d[k]\<close>.\<close>

type_synonym 'v dict = "(string \<times> 'v) list"

definition getitem :: "'v dict \<Rightarrow> string \<Rightarrow> error + 'v" where
  "getitem d k = (case map_of d k of None \<Rightarrow> Inl (KeyError k) | Some v \<Rightarrow> Inr v)"

subsection \<open>Declarations and the model\<close>

text \<open>
  The symbolic expressions the function builds from declared variables:
  \<^verbatim>\<open>pm.math.exp(x)\<close>, \<^verbatim>\<open>x * y\<close>, \<^verbatim>\<open>x / y\<close> and \<^verbatim>\<open>x**2\<close>. A variable is
  referred to by the name it was declared with.
\<close>

datatype expr =
    Var string
  | Exp expr
  | Mul expr expr
  | Div expr expr
  | Power expr nat

text \<open>
  The values of the dictionary \<^verbatim>\<open>coords\<close>: the function stores the two label
  sequences and the two observed matrices in it. The observed matrices are taken as
  arrays; the function only stores them and passes them on.
\<close>

datatype 'l coord = Labels "'l labels" | Observations "real ndarray"

text \<open>\<^verbatim>\<open>c.shape\<close> for a value of the dictionary.\<close>

fun coord_shape_attr :: "'l coord \<Rightarrow> error + pyval" where
  "coord_shape_attr (Labels (PyList xs)) = Inl (AttributeError ''shape'')"
| "coord_shape_attr (Labels (Array a)) = Inr (shape_attr a)"
| "coord_shape_attr (Observations a) = Inr (shape_attr a)"

text \<open>
  One constructor for each kind of declaration the function makes, with the arguments
  it passes, in the order of the call:
  \<^item> \<open>Normal name mu sd dims\<close>
  \<^item> \<open>Uniform name lower upper dims\<close>
  \<^item> \<open>HalfNormal name sd dims shape\<close>
  \<^item> \<open>Deterministic name expression shape\<close>
  \<^item> \<open>Gamma name alpha beta observed dims\<close>
\<close>

datatype 'l variable =
    Normal string real real pyval
  | Uniform string real real pyval
  | HalfNormal string real pyval pyval
  | Deterministic string expr "pyval option"
  | Gamma string expr expr "'l coord" pyval

fun var_name :: "'l variable \<Rightarrow> string" where
  "var_name (Normal n _ _ _) = n"
| "var_name (Uniform n _ _ _) = n"
| "var_name (HalfNormal n _ _ _) = n"
| "var_name (Deterministic n _ _) = n"
| "var_name (Gamma n _ _ _ _) = n"

text \<open>
  A model: the coordinates it was opened with and the declarations it has accepted,
  in the order they were made.
\<close>

record 'l model =
  coords :: "'l coord dict"
  named_vars :: "'l variable list"

text \<open>
  The library. \<open>refuses_model lib cs\<close> is the exception that \<^verbatim>\<open>pm.Model(coords=cs)\<close>
  raises, if it raises; \<open>refuses lib v m\<close> is the exception that the declaration \<open>v\<close>
  raises in the scope of the model \<open>m\<close>, if it raises. Both are arbitrary. The one
  thing taken from the library's interface is that a declaration it accepts is added
  to the model under the name it was given.
\<close>

record 'l library =
  refuses_model :: "'l coord dict \<Rightarrow> error option"
  refuses :: "'l variable \<Rightarrow> 'l model \<Rightarrow> error option"

text \<open>\<^verbatim>\<open>pm.Model(coords=coords)\<close>: a model with no variable yet.\<close>

definition Model :: "'l library \<Rightarrow> 'l coord dict \<Rightarrow> error + 'l model" where
  "Model lib cs =
     (case refuses_model lib cs of Some e \<Rightarrow> Inl e
      | None \<Rightarrow> Inr \<lparr>coords = cs, named_vars = []\<rparr>)"

text \<open>A declaration made inside the scope of the model.\<close>

definition register :: "'l library \<Rightarrow> 'l variable \<Rightarrow> 'l model \<Rightarrow> error + 'l model" where
  "register lib v m =
     (case refuses lib v m of Some e \<Rightarrow> Inl e
      | None \<Rightarrow> Inr (m\<lparr>named_vars := named_vars m @ [v]\<rparr>))"

text \<open>The statements of a block, run in order; the first error ends the block.\<close>

fun run :: "('s \<Rightarrow> error + 's) list \<Rightarrow> 's \<Rightarrow> error + 's" where
  "run [] s = Inr s"
| "run (stmt # stmts) s = (case stmt s of Inl e \<Rightarrow> Inl e | Inr s' \<Rightarrow> run stmts s')"

text \<open>
  The expression
  \<^verbatim>\<open>(coords["origin_period"].shape, coords["development_period"].shape)\<close>,
  which the function passes as \<^verbatim>\<open>shape\<close> to both \<open>HalfNormal\<close> and all but the first
  \<open>Deterministic\<close> declarations: a pair of shape tuples. It is evaluated from left to
  right.
\<close>

definition cell_shape :: "'l coord dict \<Rightarrow> error + pyval" where
  "cell_shape cs =
     (case getitem cs ''origin_period'' of Inl e \<Rightarrow> Inl e | Inr orig \<Rightarrow>
       (case coord_shape_attr orig of Inl e \<Rightarrow> Inl e | Inr s1 \<Rightarrow>
         (case getitem cs ''development_period'' of Inl e \<Rightarrow> Inl e | Inr dev \<Rightarrow>
           (case coord_shape_attr dev of Inl e \<Rightarrow> Inl e | Inr s2 \<Rightarrow>
              Inr (PTuple [s1, s2])))))"

text \<open>
  A statement of the block evaluates the arguments of one declaration and makes the
  declaration. \<open>body cs\<close> lists, statement by statement, the declaration that the
  statement makes, or the error that evaluating its arguments raises.
\<close>

definition with_cell_shape :: "'l coord dict \<Rightarrow> (pyval \<Rightarrow> 'l variable) \<Rightarrow> error + 'l variable" where
  "with_cell_shape cs f = (case cell_shape cs of Inl e \<Rightarrow> Inl e | Inr s \<Rightarrow> Inr (f s))"

definition with_observed ::
  "'l coord dict \<Rightarrow> string \<Rightarrow> ('l coord \<Rightarrow> 'l variable) \<Rightarrow> error + 'l variable" where
  "with_observed cs k f = (case getitem cs k of Inl e \<Rightarrow> Inl e | Inr obs \<Rightarrow> Inr (f obs))"

definition body :: "'l coord dict \<Rightarrow> (error + 'l variable) list" where
  "body cs =
     [Inr (Normal ''log__expected_ult__loss'' 0 10 (PStr ''origin_period'')),
      Inr (Uniform ''expected_pct_of_ult__rpt_loss'' 0 2 (PStr ''development_period'')),
      Inr (Uniform ''expected_pct_of_ult__paid_loss'' 0 (12 / 10) (PStr ''development_period'')),
      with_cell_shape cs (HalfNormal ''sigma__rpt_loss'' 10 (PStr ''origin_period'')),
      with_cell_shape cs (HalfNormal ''sigma__paid_loss'' 10 (PStr ''origin_period'')),
      Inr (Deterministic ''expected_ult__loss'' (Exp (Var ''log__expected_ult__loss'')) None),
      with_cell_shape cs (\<lambda>s. Deterministic ''mu__rpt_loss''
        (Mul (Var ''expected_ult__loss'') (Var ''expected_pct_of_ult__rpt_loss'')) (Some s)),
      with_cell_shape cs (\<lambda>s. Deterministic ''mu__paid_loss''
        (Mul (Var ''expected_ult__loss'') (Var ''expected_pct_of_ult__paid_loss'')) (Some s)),
      with_observed cs ''observed_rpt_loss'' (\<lambda>obs. Gamma ''rpt_loss''
        (Div (Var ''mu__rpt_loss'') (Power (Var ''sigma__rpt_loss'') 2))
        (Div (Power (Var ''sigma__rpt_loss'') 2) (Var ''mu__rpt_loss''))
        obs (PTuple [PStr ''origin_period'', PStr ''development_period''])),
      with_observed cs ''observed_paid_loss'' (\<lambda>obs. Gamma ''paid_loss''
        (Div (Var ''mu__paid_loss'') (Power (Var ''sigma__paid_loss'') 2))
        (Div (Power (Var ''sigma__paid_loss'') 2) (Var ''mu__paid_loss''))
        obs (PTuple [PStr ''origin_period'', PStr ''development_period'']))]"

definition submit :: "'l library \<Rightarrow> error + 'l variable \<Rightarrow> 'l model \<Rightarrow> error + 'l model" where
  "submit lib a m = (case a of Inl e \<Rightarrow> Inl e | Inr v \<Rightarrow> register lib v m)"

text \<open>
  The function, with the library it runs against as its first argument.
  \<^verbatim>\<open>**kwargs\<close> collects the additional keyword arguments of a call; the body never
  mentions it.
\<close>

definition single_level_paid_rpt_loss_model ::
  "'l library \<Rightarrow> 'l labels \<Rightarrow> 'l labels \<Rightarrow> real ndarray \<Rightarrow> real ndarray \<Rightarrow> pyval dict
     \<Rightarrow> error + 'l model"
where
  "single_level_paid_rpt_loss_model lib origin_period development_period
       observed_rpt_loss observed_paid_loss kwargs =
     (let cs = [(''origin_period'', Labels origin_period),
                (''development_period'', Labels development_period),
                (''observed_rpt_loss'', Observations observed_rpt_loss),
                (''observed_paid_loss'', Observations observed_paid_loss)]
      in case Model lib cs of Inl e \<Rightarrow> Inl e
         | Inr model \<Rightarrow> run (map (submit lib) (body cs)) model)"

text \<open>
  What the statements of the function declare: the model the function describes by
  its calls, each call taken as accepted. It does not depend on any library, and a
  call that returns a model, against whatever library, returns this one
  (\<open>returned_is_declared\<close> below).
\<close>

definition permissive :: "'l library" where
  "permissive = \<lparr>refuses_model = (\<lambda>cs. None), refuses = (\<lambda>v m. None)\<rparr>"

definition declared_model ::
  "'l labels \<Rightarrow> 'l labels \<Rightarrow> real ndarray \<Rightarrow> real ndarray \<Rightarrow> pyval dict \<Rightarrow> error + 'l model"
where
  "declared_model origin_period development_period observed_rpt_loss observed_paid_loss kwargs =
     single_level_paid_rpt_loss_model permissive origin_period development_period
       observed_rpt_loss observed_paid_loss kwargs"

subsection \<open>Values of the declared variables\<close>

text \<open>
  The value of a variable at one draw is an array of numbers, given here by its shape
  and by its entry at each index (one number per axis).
\<close>

record 'a tensor =
  tshape :: "nat list"
  entry :: "nat list \<Rightarrow> 'a"

text \<open>An index lies within a shape when it has one number per axis, each below the length.\<close>

definition in_shape :: "nat list \<Rightarrow> nat list \<Rightarrow> bool" where
  "in_shape idx s \<longleftrightarrow> list_all2 (<) idx s"

text \<open>
  The arithmetic in which expressions are evaluated: the operations behind
  \<^verbatim>\<open>x * y\<close>, \<^verbatim>\<open>x / y\<close>, \<^verbatim>\<open>x**n\<close> and \<^verbatim>\<open>pm.math.exp(x)\<close> on single numbers.
\<close>

record 'a arithmetic =
  times_op :: "'a \<Rightarrow> 'a \<Rightarrow> 'a"
  over_op :: "'a \<Rightarrow> 'a \<Rightarrow> 'a"
  power_op :: "'a \<Rightarrow> nat \<Rightarrow> 'a"
  exp_op :: "'a \<Rightarrow> 'a"

text \<open>Exact arithmetic on real numbers.\<close>

definition exact :: "real arithmetic" where
  "exact = \<lparr>times_op = (*), over_op = (/), power_op = (^), exp_op = exp\<rparr>"










text \<open>
  Elementwise arithmetic on arrays follows NumPy's broadcasting rule, which the
  library's tensor operators \<^verbatim>\<open>*\<close>, \<^verbatim>\<open>/\<close> and \<^verbatim>\<open>**\<close> implement: the shapes are
  aligned at their last axis; two lengths are compatible when they are equal or one of
  them is 1; an axis of length 1 is read at index 0 throughout. \<open>broadcast_rev\<close> works
  on the reversed shapes.
\<close>

fun broadcast_rev :: "nat list \<Rightarrow> nat list \<Rightarrow> nat list option" where
  "broadcast_rev [] ys = Some ys"
| "broadcast_rev (x # xs) [] = Some (x # xs)"
| "broadcast_rev (x # xs) (y # ys) =
     (if x = y \<or> y = 1 then map_option ((#) x) (broadcast_rev xs ys)
      else if x = 1 then map_option ((#) y) (broadcast_rev xs ys)
      else None)"

definition broadcast_shapes :: "nat list \<Rightarrow> nat list \<Rightarrow> nat list option" where
  "broadcast_shapes s t = map_option rev (broadcast_rev (rev s) (rev t))"

text \<open>The index at which an operand of shape \<open>s\<close> is read for the result's index \<open>idx\<close>.\<close>

definition broadcast_index :: "nat list \<Rightarrow> nat list \<Rightarrow> nat list" where
  "broadcast_index s idx =
     map2 (\<lambda>n i. if n = 1 then 0 else i) s (drop (length idx - length s) idx)"

text \<open>
  \<open>read t idx\<close> is the entry of the array \<open>t\<close> that belongs to the index \<open>idx\<close> of a
  result that \<open>t\<close> is broadcast to. Where \<open>idx\<close> lies within the shape of \<open>t\<close>, it is the
  entry of \<open>t\<close> at \<open>idx\<close>; for a vector \<open>t\<close> and a cell \<open>[i, j]\<close> of a table, it is the entry
  of \<open>t\<close> at \<open>[j]\<close>.
\<close>

definition read :: "'a tensor \<Rightarrow> nat list \<Rightarrow> 'a" where
  "read t idx = entry t (broadcast_index (tshape t) idx)"

definition elemwise :: "('a \<Rightarrow> 'a \<Rightarrow> 'a) \<Rightarrow> 'a tensor \<Rightarrow> 'a tensor \<Rightarrow> error + 'a tensor" where
  "elemwise f a b =
     (case broadcast_shapes (tshape a) (tshape b) of
        None \<Rightarrow> Inl (ShapeError (tshape a) (tshape b))
      | Some s \<Rightarrow> Inr \<lparr>tshape = s, entry = (\<lambda>idx. f (read a idx) (read b idx))\<rparr>)"

definition map_tensor :: "('a \<Rightarrow> 'a) \<Rightarrow> 'a tensor \<Rightarrow> 'a tensor" where
  "map_tensor f a = \<lparr>tshape = tshape a, entry = (\<lambda>idx. f (entry a idx))\<rparr>"

text \<open>
  The value of an expression, given the values of the variables it mentions. A
  variable without a value is a \<open>KeyError\<close>.
\<close>

fun eval_expr :: "'a arithmetic \<Rightarrow> (string \<rightharpoonup> 'a tensor) \<Rightarrow> expr \<Rightarrow> error + 'a tensor" where
  "eval_expr ar env (Var x) = (case env x of None \<Rightarrow> Inl (KeyError x) | Some t \<Rightarrow> Inr t)"
| "eval_expr ar env (Exp e) =
     (case eval_expr ar env e of Inl err \<Rightarrow> Inl err
      | Inr t \<Rightarrow> Inr (map_tensor (exp_op ar) t))"
| "eval_expr ar env (Mul a b) =
     (case eval_expr ar env a of Inl err \<Rightarrow> Inl err | Inr x \<Rightarrow>
       (case eval_expr ar env b of Inl err \<Rightarrow> Inl err | Inr y \<Rightarrow> elemwise (times_op ar) x y))"
| "eval_expr ar env (Div a b) =
     (case eval_expr ar env a of Inl err \<Rightarrow> Inl err | Inr x \<Rightarrow>
       (case eval_expr ar env b of Inl err \<Rightarrow> Inl err | Inr y \<Rightarrow> elemwise (over_op ar) x y))"
| "eval_expr ar env (Power e n) =
     (case eval_expr ar env e of Inl err \<Rightarrow> Inl err
      | Inr t \<Rightarrow> Inr (map_tensor (\<lambda>x. power_op ar x n) t))"

text \<open>
  The values of the deterministic variables: the declarations are visited in the order
  they were made, and each deterministic variable gets the value of its expression
  under the values known so far. \<open>env\<close> starts with the values of the random variables.
\<close>

fun eval_deterministics ::
  "'a arithmetic \<Rightarrow> 'l variable list \<Rightarrow> (string \<rightharpoonup> 'a tensor) \<Rightarrow> error + (string \<rightharpoonup> 'a tensor)"
where
  "eval_deterministics ar [] env = Inr env"
| "eval_deterministics ar (Deterministic n e s # vs) env =
     (case eval_expr ar env e of Inl err \<Rightarrow> Inl err
      | Inr t \<Rightarrow> eval_deterministics ar vs (env(n \<mapsto> t)))"
| "eval_deterministics ar (v # vs) env = eval_deterministics ar vs env"

definition deterministic_values ::
  "'a arithmetic \<Rightarrow> 'l model \<Rightarrow> (string \<rightharpoonup> 'a tensor) \<Rightarrow> error + (string \<rightharpoonup> 'a tensor)"
where
  "deterministic_values ar m env = eval_deterministics ar (named_vars m) env"

text \<open>The variable a model holds under a name.\<close>

definition find_var :: "'l model \<Rightarrow> string \<Rightarrow> 'l variable option" where
  "find_var m n = find (\<lambda>v. var_name v = n) (named_vars m)"

text \<open>
  The shape and rate parameters \<open>(alpha, beta)\<close> of the Gamma likelihood term named
  \<open>n\<close>, under the values \<open>env\<close> of the variables.
\<close>

definition gamma_params ::
  "'a arithmetic \<Rightarrow> 'l model \<Rightarrow> string \<Rightarrow> (string \<rightharpoonup> 'a tensor)
     \<Rightarrow> error + 'a tensor \<times> 'a tensor"
where
  "gamma_params ar m n env =
     (case find_var m n of
        Some (Gamma _ a b _ _) \<Rightarrow>
          (case eval_expr ar env a of Inl err \<Rightarrow> Inl err | Inr alpha \<Rightarrow>
            (case eval_expr ar env b of Inl err \<Rightarrow> Inl err | Inr beta \<Rightarrow> Inr (alpha, beta)))
      | _ \<Rightarrow> Inl (KeyError n))"


text \<open>The observed data of the likelihood term named \<open>n\<close>.\<close>

definition observed_data :: "'l model \<Rightarrow> string \<Rightarrow> 'l coord option" where
  "observed_data m n = (case find_var m n of Some (Gamma _ _ _ obs _) \<Rightarrow> Some obs | _ \<Rightarrow> None)"

text \<open>The shape and one entry of the value a variable has under \<open>env\<close>.\<close>

definition shape_of :: "(string \<rightharpoonup> 'a tensor) \<Rightarrow> string \<Rightarrow> nat list option" where
  "shape_of env n = map_option tshape (env n)"

definition entry_of :: "(string \<rightharpoonup> 'a tensor) \<Rightarrow> string \<Rightarrow> nat list \<Rightarrow> 'a option" where
  "entry_of env n idx = map_option (\<lambda>t. entry t idx) (env n)"


subsection \<open>Example inputs\<close>

text \<open>
  The scenario of the specification: three origin periods, two development periods
  and the two observed triangles, row by row.
\<close>

abbreviation scenario_origin :: "int labels" where
  "scenario_origin \<equiv> Array (NdArray [3] [2020, 2021, 2022])"

abbreviation scenario_development :: "int labels" where
  "scenario_development \<equiv> Array (NdArray [2] [12, 24])"

abbreviation scenario_rpt :: "real ndarray" where
  "scenario_rpt \<equiv> NdArray [3, 2] [100, 150, 120, 180, 90, 140]"

abbreviation scenario_paid :: "real ndarray" where
  "scenario_paid \<equiv> NdArray [3, 2] [80, 130, 90, 150, 70, 110]"

text \<open>
  \<open>full s x\<close> is the array of shape \<open>s\<close> whose entries all are \<open>x\<close>; \<open>vector\<close> and \<open>table\<close>
  write an array with one and with two axes out by its entries.
\<close>

definition full :: "nat list \<Rightarrow> 'a \<Rightarrow> 'a tensor" where
  "full s x = \<lparr>tshape = s, entry = (\<lambda>idx. x)\<rparr>"



text \<open>
  One draw of the random variables for the scenario: a value for each origin period,
  for each development period and, for the dispersions, for each cell.
\<close>

abbreviation scenario_draw :: "string \<rightharpoonup> real tensor" where
  "scenario_draw \<equiv>
     [''log__expected_ult__loss'' \<mapsto> full [3] 0,
      ''expected_pct_of_ult__rpt_loss'' \<mapsto> full [2] (3 / 2),
      ''expected_pct_of_ult__paid_loss'' \<mapsto> full [2] (1 / 2),
      ''sigma__rpt_loss'' \<mapsto> full [3, 2] 1,
      ''sigma__paid_loss'' \<mapsto> full [3, 2] 1]"

text \<open>The same draw for a triangle of one origin period and one development period.\<close>

abbreviation one_cell_draw :: "string \<rightharpoonup> real tensor" where
  "one_cell_draw \<equiv>
     [''log__expected_ult__loss'' \<mapsto> full [1] 0,
      ''expected_pct_of_ult__rpt_loss'' \<mapsto> full [1] (3 / 2),
      ''expected_pct_of_ult__paid_loss'' \<mapsto> full [1] (1 / 2),
      ''sigma__rpt_loss'' \<mapsto> full [1, 1] 1,
      ''sigma__paid_loss'' \<mapsto> full [1, 1] 1]"







section \<open>Properties\<close>

subsection \<open>What the function declares\<close>

text \<open>
  With arrays as labels, evaluating the arguments of the ten declarations raises
  nothing: every key the function looks up is a key of the dictionary it has just
  written, and both label arrays have a shape.
\<close>

lemma body_arrays:
  "body [(''origin_period'', Labels (Array orig)), (''development_period'', Labels (Array dev)),
         (''observed_rpt_loss'', Observations rpt), (''observed_paid_loss'', Observations paid)] =
   map Inr
        [Normal ''log__expected_ult__loss'' 0 10 (PStr ''origin_period''),
         Uniform ''expected_pct_of_ult__rpt_loss'' 0 2 (PStr ''development_period''),
         Uniform ''expected_pct_of_ult__paid_loss'' 0 (12 / 10) (PStr ''development_period''),
         HalfNormal ''sigma__rpt_loss'' 10 (PStr ''origin_period'')
           (PTuple [shape_attr orig, shape_attr dev]),
         HalfNormal ''sigma__paid_loss'' 10 (PStr ''origin_period'')
           (PTuple [shape_attr orig, shape_attr dev]),
         Deterministic ''expected_ult__loss'' (Exp (Var ''log__expected_ult__loss'')) None,
         Deterministic ''mu__rpt_loss''
           (Mul (Var ''expected_ult__loss'') (Var ''expected_pct_of_ult__rpt_loss''))
           (Some (PTuple [shape_attr orig, shape_attr dev])),
         Deterministic ''mu__paid_loss''
           (Mul (Var ''expected_ult__loss'') (Var ''expected_pct_of_ult__paid_loss''))
           (Some (PTuple [shape_attr orig, shape_attr dev])),
         Gamma ''rpt_loss''
           (Div (Var ''mu__rpt_loss'') (Power (Var ''sigma__rpt_loss'') 2))
           (Div (Power (Var ''sigma__rpt_loss'') 2) (Var ''mu__rpt_loss''))
           (Observations rpt) (PTuple [PStr ''origin_period'', PStr ''development_period'']),
         Gamma ''paid_loss''
           (Div (Var ''mu__paid_loss'') (Power (Var ''sigma__paid_loss'') 2))
           (Div (Power (Var ''sigma__paid_loss'') 2) (Var ''mu__paid_loss''))
           (Observations paid) (PTuple [PStr ''origin_period'', PStr ''development_period''])]"
  by (simp add: body_def with_cell_shape_def with_observed_def cell_shape_def getitem_def)

lemma submit_simps:
  "submit lib (Inl e) m = Inl e"
  "submit lib (Inr v) m = register lib v m"
  by (simp_all add: submit_def)

lemma Model_permissive: "Model permissive cs = Inr \<lparr>coords = cs, named_vars = []\<rparr>"
  by (simp add: Model_def permissive_def)

lemma run_accepted:
  "run (map (submit permissive) (map Inr vs)) m = Inr (m\<lparr>named_vars := named_vars m @ vs\<rparr>)"
  by (induction vs arbitrary: m) (simp_all add: submit_simps register_def permissive_def)

text \<open>
  A block returns only if no statement raised, and then the model holds the
  declarations of the statements; a statement whose arguments raise makes the block
  raise, whatever the library does with the declarations before it.
\<close>

lemma run_returned:
  assumes "run (map (submit lib) as) m = Inr m'"
  shows "\<exists>vs. as = map Inr vs \<and> m' = m\<lparr>named_vars := named_vars m @ vs\<rparr>"
  using assms
proof (induction as arbitrary: m)
  case Nil
  then show ?case by simp
next
  case (Cons a as)
  then obtain v where a: "a = Inr v"
    by (cases a) (simp_all add: submit_simps)
  from Cons.prems a obtain m1 where m1: "register lib v m = Inr m1"
      "run (map (submit lib) as) m1 = Inr m'"
    by (cases "register lib v m") (simp_all add: submit_simps)
  from m1(1) have m1_eq: "m1 = m\<lparr>named_vars := named_vars m @ [v]\<rparr>"
    by (auto simp add: register_def split: option.splits)
  from Cons.IH [OF m1(2)] obtain vs where vs: "as = map Inr vs"
      "m' = m1\<lparr>named_vars := named_vars m1 @ vs\<rparr>"
    by blast
  have "a # as = map Inr (v # vs)"
    using a vs(1) by simp
  moreover have "m' = m\<lparr>named_vars := named_vars m @ (v # vs)\<rparr>"
    using vs(2) m1_eq by simp
  ultimately show ?case
    by (intro exI [where x = "v # vs"] conjI)
qed

lemma run_raises:
  assumes "Inl e \<in> set as"
  shows "raises (run (map (submit lib) as) m)"
  using assms
proof (induction as arbitrary: m)
  case Nil
  then show ?case by simp
next
  case (Cons a as)
  show ?case
  proof (cases "submit lib a m")
    case (Inl e')
    then show ?thesis by (simp add: raises_def)
  next
    case (Inr m1)
    then have "a \<noteq> Inl e"
      by (auto simp add: submit_simps)
    with Cons.prems have "Inl e \<in> set as" by simp
    from Cons.IH [OF this] Inr show ?thesis by simp
  qed
qed

text \<open>
  Whatever model a call returns against some library is the model that the statements
  of the function declare.
\<close>

lemma returned_is_declared:
  assumes "single_level_paid_rpt_loss_model lib orig dev rpt paid kw = Inr m"
  shows "declared_model orig dev rpt paid kw = Inr m"
proof -
  let ?cs = "[(''origin_period'', Labels orig), (''development_period'', Labels dev),
              (''observed_rpt_loss'', Observations rpt), (''observed_paid_loss'', Observations paid)]"
  let ?m0 = "\<lparr>coords = ?cs, named_vars = []\<rparr>"
  from assms have r: "run (map (submit lib) (body ?cs)) ?m0 = Inr m"
    by (auto simp add: single_level_paid_rpt_loss_model_def Let_def Model_def
        split: option.splits)
  from run_returned [OF r] obtain vs where vs: "body ?cs = map Inr vs"
      "m = ?m0\<lparr>named_vars := named_vars ?m0 @ vs\<rparr>"
    by blast
  have "run (map (submit permissive) (body ?cs)) ?m0 = Inr m"
    unfolding vs(1) run_accepted using vs(2) by simp
  then show ?thesis
    by (simp add: declared_model_def single_level_paid_rpt_loss_model_def Let_def
        Model_permissive)
qed

text \<open>
  With a list as one of the label sequences, the call raises against every library:
  unless the library has raised before, the first \<open>HalfNormal\<close> statement reads the
  attribute \<^verbatim>\<open>.shape\<close> of a list.
\<close>

lemma list_labels_raise:
  "raises (single_level_paid_rpt_loss_model lib (PyList xs) dev rpt paid kw)"
  "raises (single_level_paid_rpt_loss_model lib orig (PyList ys) rpt paid kw)"
proof -
  have 1: "Inl (AttributeError ''shape'') \<in> set (body [(''origin_period'', Labels (PyList xs)),
      (''development_period'', Labels dev), (''observed_rpt_loss'', Observations rpt),
      (''observed_paid_loss'', Observations paid)])"
    by (simp add: body_def with_cell_shape_def cell_shape_def getitem_def)
  from run_raises [OF 1]
  show "raises (single_level_paid_rpt_loss_model lib (PyList xs) dev rpt paid kw)"
    by (simp add: single_level_paid_rpt_loss_model_def Let_def Model_def raises_def
        split: option.splits)
  have 2: "Inl (AttributeError ''shape'') \<in> set (body [(''origin_period'', Labels orig),
      (''development_period'', Labels (PyList ys)), (''observed_rpt_loss'', Observations rpt),
      (''observed_paid_loss'', Observations paid)])"
    by (cases orig) (simp_all add: body_def with_cell_shape_def cell_shape_def getitem_def)
  from run_raises [OF 2]
  show "raises (single_level_paid_rpt_loss_model lib orig (PyList ys) rpt paid kw)"
    by (simp add: single_level_paid_rpt_loss_model_def Let_def Model_def raises_def
        split: option.splits)
qed

text \<open>The ten declarations of the function, for labels that are arrays.\<close>

lemma model_built:
  "declared_model (Array orig) (Array dev) rpt paid kw = Inr
     \<lparr>coords = [(''origin_period'', Labels (Array orig)),
                (''development_period'', Labels (Array dev)),
                (''observed_rpt_loss'', Observations rpt),
                (''observed_paid_loss'', Observations paid)],
      named_vars =
        [Normal ''log__expected_ult__loss'' 0 10 (PStr ''origin_period''),
         Uniform ''expected_pct_of_ult__rpt_loss'' 0 2 (PStr ''development_period''),
         Uniform ''expected_pct_of_ult__paid_loss'' 0 (12 / 10) (PStr ''development_period''),
         HalfNormal ''sigma__rpt_loss'' 10 (PStr ''origin_period'')
           (PTuple [shape_attr orig, shape_attr dev]),
         HalfNormal ''sigma__paid_loss'' 10 (PStr ''origin_period'')
           (PTuple [shape_attr orig, shape_attr dev]),
         Deterministic ''expected_ult__loss'' (Exp (Var ''log__expected_ult__loss'')) None,
         Deterministic ''mu__rpt_loss''
           (Mul (Var ''expected_ult__loss'') (Var ''expected_pct_of_ult__rpt_loss''))
           (Some (PTuple [shape_attr orig, shape_attr dev])),
         Deterministic ''mu__paid_loss''
           (Mul (Var ''expected_ult__loss'') (Var ''expected_pct_of_ult__paid_loss''))
           (Some (PTuple [shape_attr orig, shape_attr dev])),
         Gamma ''rpt_loss''
           (Div (Var ''mu__rpt_loss'') (Power (Var ''sigma__rpt_loss'') 2))
           (Div (Power (Var ''sigma__rpt_loss'') 2) (Var ''mu__rpt_loss''))
           (Observations rpt) (PTuple [PStr ''origin_period'', PStr ''development_period'']),
         Gamma ''paid_loss''
           (Div (Var ''mu__paid_loss'') (Power (Var ''sigma__paid_loss'') 2))
           (Div (Power (Var ''sigma__paid_loss'') 2) (Var ''mu__paid_loss''))
           (Observations paid) (PTuple [PStr ''origin_period'', PStr ''development_period''])]\<rparr>"
  unfolding declared_model_def single_level_paid_rpt_loss_model_def Let_def Model_permissive
    sum.case body_arrays run_accepted
  by simp

lemma declared_arrays:
  assumes "declared_model lo ld rpt paid kw = Inr m"
  obtains orig dev where "lo = Array orig" "ld = Array dev"
proof -
  have "\<not> raises (declared_model lo ld rpt paid kw)"
    using assms by (simp add: raises_def)
  then have "\<not> raises (single_level_paid_rpt_loss_model permissive lo ld rpt paid kw)"
    by (simp add: declared_model_def)
  then have "(\<forall>xs. lo \<noteq> PyList xs) \<and> (\<forall>ys. ld \<noteq> PyList ys)"
    using list_labels_raise by blast
  then show thesis
    using that by (cases lo; cases ld) simp_all
qed


text \<open>
  The declarations of the priors, and the two axes of the coordinates that their
  \<open>dims\<close> name.
\<close>

lemma priors_declared:
  assumes m: "declared_model (Array orig) (Array dev) rpt paid kw = Inr m"
  shows "find_var m ''log__expected_ult__loss'' =
           Some (Normal ''log__expected_ult__loss'' 0 10 (PStr ''origin_period''))"
    and "find_var m ''expected_pct_of_ult__rpt_loss'' =
           Some (Uniform ''expected_pct_of_ult__rpt_loss'' 0 2 (PStr ''development_period''))"
    and "find_var m ''expected_pct_of_ult__paid_loss'' =
           Some (Uniform ''expected_pct_of_ult__paid_loss'' 0 (12 / 10)
                  (PStr ''development_period''))"
    and "find_var m ''sigma__rpt_loss'' =
           Some (HalfNormal ''sigma__rpt_loss'' 10 (PStr ''origin_period'')
                  (PTuple [shape_attr orig, shape_attr dev]))"
    and "find_var m ''sigma__paid_loss'' =
           Some (HalfNormal ''sigma__paid_loss'' 10 (PStr ''origin_period'')
                  (PTuple [shape_attr orig, shape_attr dev]))"
    and "map_of (coords m) ''origin_period'' = Some (Labels (Array orig))"
    and "map_of (coords m) ''development_period'' = Some (Labels (Array dev))"
  using m by (auto simp add: model_built find_var_def)

text \<open>The two likelihood terms.\<close>

lemma find_rpt_loss:
  assumes "declared_model lo ld rpt paid kw = Inr m"
  shows "find_var m ''rpt_loss'' = Some (Gamma ''rpt_loss''
           (Div (Var ''mu__rpt_loss'') (Power (Var ''sigma__rpt_loss'') 2))
           (Div (Power (Var ''sigma__rpt_loss'') 2) (Var ''mu__rpt_loss''))
           (Observations rpt) (PTuple [PStr ''origin_period'', PStr ''development_period'']))"
proof -
  from assms obtain orig dev where "lo = Array orig" "ld = Array dev"
    by (rule declared_arrays)
  with assms show ?thesis
    by (auto simp add: model_built find_var_def)
qed

lemma find_paid_loss:
  assumes "declared_model lo ld rpt paid kw = Inr m"
  shows "find_var m ''paid_loss'' = Some (Gamma ''paid_loss''
           (Div (Var ''mu__paid_loss'') (Power (Var ''sigma__paid_loss'') 2))
           (Div (Power (Var ''sigma__paid_loss'') 2) (Var ''mu__paid_loss''))
           (Observations paid) (PTuple [PStr ''origin_period'', PStr ''development_period'']))"
proof -
  from assms obtain orig dev where "lo = Array orig" "ld = Array dev"
    by (rule declared_arrays)
  with assms show ?thesis
    by (auto simp add: model_built find_var_def)
qed

text \<open>
  The function compares no shapes and reads no entry of the observed matrices: a model
  that a call returns holds, in its likelihood terms, the two arrays as they were
  passed.
\<close>

lemma observed_forwarded:
  assumes "single_level_paid_rpt_loss_model lib lo ld rpt paid kw = Inr m"
  shows "observed_data m ''rpt_loss'' = Some (Observations rpt)"
    and "observed_data m ''paid_loss'' = Some (Observations paid)"
  using returned_is_declared [OF assms]
  by (simp_all add: observed_data_def find_rpt_loss find_paid_loss)

subsection \<open>Broadcasting\<close>

lemma broadcast_rev_same: "broadcast_rev s s = Some s"
  by (induction s) auto

lemma broadcast_shapes_same: "broadcast_shapes s s = Some s"
  by (simp add: broadcast_shapes_def broadcast_rev_same)




lemma broadcast_index_in_shape:
  assumes "in_shape idx s"
  shows "broadcast_index s idx = idx"
proof -
  have all: "list_all2 (<) idx s"
    using assms by (simp add: in_shape_def)
  then have len: "length idx = length s"
    by (rule list_all2_lengthD)
  have "map2 (\<lambda>n i. if n = 1 then 0 else i) s idx = idx"
    using all by (induction idx s rule: list_all2_induct) auto
  with len show ?thesis by (simp add: broadcast_index_def)
qed

text \<open>
  An index within the shape of an array reads the entry at that index; a cell \<open>[i, j]\<close>
  reads a vector at \<open>[j]\<close>.
\<close>

lemma read_in_shape:
  assumes "in_shape idx (tshape t)"
  shows "read t idx = entry t idx"
  using assms by (simp add: read_def broadcast_index_in_shape)



subsection \<open>The parameters of a likelihood term\<close>



subsection \<open>The deterministic variables\<close>

text \<open>
  When the two axes have the same length \<open>n\<close>, the product of the vector
  \<open>expected_ult__loss\<close> (one value per origin period) and the vector
  \<open>expected_pct_of_ult__rpt_loss\<close> (one value per development period) is again a vector
  of length \<open>n\<close>: its \<open>i\<close>-th entry is the product of the two \<open>i\<close>-th entries.
\<close>

lemma deterministic_values_equal_lengths:
  assumes m: "declared_model lo ld rpt paid kw = Inr m"
    and env: "env ''log__expected_ult__loss'' = Some l"
      "env ''expected_pct_of_ult__rpt_loss'' = Some p"
      "env ''expected_pct_of_ult__paid_loss'' = Some q"
    and sh: "tshape l = [n]" "tshape p = [n]" "tshape q = [n]"
    and i: "i < n"
  shows "returns (deterministic_values exact m env) (\<lambda>env'.
           shape_of env' ''expected_ult__loss'' = Some [n] \<and>
           entry_of env' ''expected_ult__loss'' [i] = Some (exp (entry l [i])) \<and>
           shape_of env' ''mu__rpt_loss'' = Some [n] \<and>
           entry_of env' ''mu__rpt_loss'' [i] = Some (exp (entry l [i]) * entry p [i]) \<and>
           shape_of env' ''mu__paid_loss'' = Some [n] \<and>
           entry_of env' ''mu__paid_loss'' [i] = Some (exp (entry l [i]) * entry q [i]))"
proof -
  from m obtain orig dev where "lo = Array orig" "ld = Array dev"
    by (rule declared_arrays)
  with m env sh i show ?thesis
    by (auto simp add: model_built returns_def deterministic_values_def entry_of_def
        shape_of_def elemwise_def broadcast_shapes_def broadcast_index_def read_def
        map_tensor_def exact_def)
qed


subsection \<open>Rounding to binary64\<close>




section \<open>The claims\<close>

subsection \<open>Claim C1: the variables of the model\<close>




subsection \<open>Claim C2: the parameters of the Gamma likelihood terms\<close>



subsection \<open>Claim C3: the mean implied by the parameters\<close>

text \<open>
  Claim C3 says that the mean \<open>alpha / beta\<close> of each likelihood term equals \<open>mu\<close>. The
  function's comments call \<open>mu__rpt_loss\<close> and \<open>mu__paid_loss\<close> the expected loss of a
  cell, but the parameters it passes give another mean. For one origin period and one
  development period, with \<open>log__expected_ult__loss = 0\<close>, percentages \<open>3/2\<close> and \<open>1/2\<close>
  and both dispersions \<open>1\<close>, in exact arithmetic: \<open>mu__rpt_loss\<close> is \<open>3/2\<close> while the
  reported term has \<open>alpha / beta = 9/4\<close>, and \<open>mu__paid_loss\<close> is \<open>1/2\<close> while the paid
  term has \<open>alpha / beta = 1/4\<close>.
\<close>

theorem implied_mean_is_not_mu:
  "returns (declared_model (Array (NdArray [1] [2020 :: int])) (Array (NdArray [1] [12]))
              (NdArray [1, 1] [100]) (NdArray [1, 1] [80]) []) (\<lambda>m.
     returns (deterministic_values exact m one_cell_draw) (\<lambda>env.
       entry_of env ''mu__rpt_loss'' [0] = Some (3 / 2) \<and>
       returns (gamma_params exact m ''rpt_loss'' env) (\<lambda>(alpha, beta).
         entry alpha [0, 0] / entry beta [0, 0] = 9 / 4) \<and>
       entry_of env ''mu__paid_loss'' [0] = Some (1 / 2) \<and>
       returns (gamma_params exact m ''paid_loss'' env) (\<lambda>(alpha, beta).
         entry alpha [0, 0] / entry beta [0, 0] = 1 / 4)))"
  by (simp add: model_built returns_def deterministic_values_def gamma_params_def find_var_def
      entry_of_def elemwise_def broadcast_shapes_def broadcast_index_def read_def
      map_tensor_def full_def exact_def)

subsection \<open>Claim C4: the deterministic variables\<close>

text \<open>
  Claim C4 says that \<open>mu__rpt_loss\<close> and \<open>mu__paid_loss\<close> hold, for every origin period
  \<open>i\<close> and development period \<open>j\<close>, the product of \<open>expected_ult__loss[i]\<close> and the
  percentage of period \<open>j\<close>; the function's comments say the same ("at each cell in the
  triangle"). The function multiplies the two vectors as they are. On the scenario,
  with three origin periods and two development periods, the lengths 3 and 2 do not
  broadcast, so the deterministic variables have no value: computing \<open>mu__rpt_loss\<close>
  raises a shape error. (For axes of equal length the product is the vector of
  \<open>deterministic_values_equal_lengths\<close>, not a table.)
\<close>

theorem mu_is_not_per_cell:
  "returns (declared_model scenario_origin scenario_development scenario_rpt scenario_paid [])
     (\<lambda>m. deterministic_values exact m scenario_draw = Inl (ShapeError [3] [2]))"
  by (simp add: model_built returns_def deterministic_values_def
      elemwise_def broadcast_shapes_def map_tensor_def full_def exact_def)

subsection \<open>Claim C5: the priors\<close>

text \<open>
  Claim C5 says that \<open>sigma__rpt_loss\<close> and \<open>sigma__paid_loss\<close> have one value per cell,
  that is shape \<open>(3, 2)\<close> on the scenario. The function declares both over the single
  dimension \<open>origin_period\<close> and passes as \<open>shape\<close> the pair of the two axes' shape
  tuples, \<open>((3,), (2,))\<close>, not the pair of their lengths: neither declaration is the
  one over both dimensions with shape \<open>(3, 2)\<close>. (The other priors are as the claim
  says: \<open>priors_declared\<close>.)
\<close>

theorem sigma_declared_shape:
  "returns (declared_model scenario_origin scenario_development scenario_rpt scenario_paid [])
     (\<lambda>m.
     find_var m ''sigma__rpt_loss'' = Some (HalfNormal ''sigma__rpt_loss'' 10
        (PStr ''origin_period'') (PTuple [PTuple [PInt 3], PTuple [PInt 2]])) \<and>
     find_var m ''sigma__paid_loss'' = Some (HalfNormal ''sigma__paid_loss'' 10
        (PStr ''origin_period'') (PTuple [PTuple [PInt 3], PTuple [PInt 2]])) \<and>
     find_var m ''sigma__rpt_loss'' \<noteq> Some (HalfNormal ''sigma__rpt_loss'' 10
        (PTuple [PStr ''origin_period'', PStr ''development_period''])
        (PTuple [PInt 3, PInt 2])) \<and>
     find_var m ''sigma__paid_loss'' \<noteq> Some (HalfNormal ''sigma__paid_loss'' 10
        (PTuple [PStr ''origin_period'', PStr ''development_period''])
        (PTuple [PInt 3, PInt 2])))"
  by (simp add: model_built returns_def find_var_def shape_attr_def)

subsection \<open>Claims C6 and C7: observed matrices that are not valid\<close>

text \<open>
  Claim C6 (a dimension error when an observed matrix has another shape than the axes
  give) and claim C7 (a domain error when an observed entry is not positive) are about
  exceptions that no statement of the function raises itself: the function passes the
  two matrices to the likelihood terms as they are (\<open>observed_forwarded\<close>). Whether the
  declaration of a likelihood term raises on such a matrix is the library's decision,
  which the function's text does not settle; neither claim is proved or refuted here.
\<close>

subsection \<open>Claim C8: determinism\<close>

text \<open>
  Claim C8 (two calls with the same arguments return equal models; no input or output,
  no randomness) is about the effects of a call. The function above is a function of
  its arguments and of the library by construction, so that the claim has no statement
  here that would say more than reflexivity.
\<close>

subsection \<open>Claim C9: additional keyword arguments\<close>

text \<open>
  Claim C9, as the function behaves. The function accepts any additional keyword
  arguments and ignores them: for every input and against every library, the result
  with the keyword arguments \<open>kw\<close> is the result with none.
\<close>

theorem kwargs_ignored:
  "single_level_paid_rpt_loss_model lib lo ld rpt paid kw =
   single_level_paid_rpt_loss_model lib lo ld rpt paid []"
  by (simp add: single_level_paid_rpt_loss_model_def)

text \<open>
  Two different keyword configurations give the same result on the scenario, against
  every library: the configuration does not reach the model.
\<close>

theorem kwargs_counterexample:
  "[(''name'', PStr ''a'')] \<noteq> [(''name'', PStr ''b'')] \<and>
   (\<forall>lib. single_level_paid_rpt_loss_model lib scenario_origin scenario_development
       scenario_rpt scenario_paid [(''name'', PStr ''a'')] =
     single_level_paid_rpt_loss_model lib scenario_origin scenario_development
       scenario_rpt scenario_paid [(''name'', PStr ''b'')])"
  by (simp add: single_level_paid_rpt_loss_model_def)

subsection \<open>Claim C10: shape times rate\<close>




end
